theory Spec2Isabelle
  imports Complex_Main "HOL-Library.Sublist" "HOL-Library.AList"
begin

section \<open>Python values and the library functions the program calls\<close>

text \<open>
  The program is Python. A \<open>str\<close> is modelled as a \<open>string\<close> whose characters are the
  code points below 256. The operator \<open>sub in s\<close> on strings is \<^const>\<open>sublist\<close> (a
  contiguous run), and \<open>s.startswith(p)\<close> is \<^const>\<open>prefix\<close>.
\<close>

text \<open>\<open>str.isspace\<close> on one character: TAB, LF, VT, FF, CR, FS, GS, RS, US, SPACE, NEL, NBSP.\<close>

definition is_space :: "char \<Rightarrow> bool" where
  "is_space c = ((of_char c :: nat) \<in> {9, 10, 11, 12, 13, 28, 29, 30, 31, 32, 133, 160})"

text \<open>\<open>s.strip()\<close>: white space removed from both ends.\<close>

definition strip :: "string \<Rightarrow> string" where
  "strip s = rev (dropWhile is_space (rev (dropWhile is_space s)))"

text \<open>\<open>s.lower()\<close>: the upper-case letters A to Z and the Latin-1 capitals move up by 32.\<close>

definition lower_char :: "char \<Rightarrow> char" where
  "lower_char c =
     (let n = (of_char c :: nat)
      in if (65 \<le> n \<and> n \<le> 90) \<or> (192 \<le> n \<and> n \<le> 222 \<and> n \<noteq> 215)
         then char_of (n + 32) else c)"

definition lower :: "string \<Rightarrow> string" where
  "lower s = map lower_char s"

text \<open>
  \<open>s.replace(old, new)\<close>: every occurrence of \<open>old\<close>, found from the left and not
  overlapping, becomes \<open>new\<close>. With an empty \<open>old\<close> Python puts \<open>new\<close> around every
  character.
\<close>

function replace_from :: "string \<Rightarrow> string \<Rightarrow> string \<Rightarrow> string" where
  "replace_from old new [] = []"
| "replace_from old new (c # cs) =
     (if old \<noteq> [] \<and> prefix old (c # cs)
      then new @ replace_from old new (drop (length old) (c # cs))
      else c # replace_from old new cs)"
  by pat_completeness auto
termination
  by (relation "measure (\<lambda>(old, new, s). length s)") auto

definition replace :: "string \<Rightarrow> string \<Rightarrow> string \<Rightarrow> string" where
  "replace s old new =
     (if old = [] then new @ concat (map (\<lambda>c. c # new) s) else replace_from old new s)"

text \<open>
  The values that \<open>json.loads\<close> returns and \<open>json.dump\<close> accepts. A \<open>dict\<close> keeps its
  keys in insertion order, so it is an association list. A \<open>float\<close> is only stored and
  compared by the program, never computed with.
\<close>

datatype json =
    JNull
  | JBool bool
  | JInt int
  | JFloat real
  | JStr string
  | JArr "json list"
  | JObj "(string \<times> json) list"

datatype py_error =
    JSONDecodeError string
  | KeyError string
  | TypeError
  | AttributeError
  | ValueError string

text \<open>\<open>str(e)\<close> for the two exceptions the handlers catch; a \<open>KeyError\<close> prints its key quoted.\<close>

fun str_of_error :: "py_error \<Rightarrow> string" where
  "str_of_error (JSONDecodeError msg) = msg"
| "str_of_error (KeyError k) = CHR 0x27 # k @ [CHR 0x27]"
| "str_of_error TypeError = ''TypeError''"
| "str_of_error AttributeError = ''AttributeError''"
| "str_of_error (ValueError msg) = msg"

text \<open>\<open>d[k]\<close> with a string key: only a \<open>dict\<close> can be indexed so.\<close>

fun py_getitem :: "json \<Rightarrow> string \<Rightarrow> py_error + json" where
  "py_getitem (JObj kvs) k = (case map_of kvs k of None \<Rightarrow> Inl (KeyError k) | Some v \<Rightarrow> Inr v)"
| "py_getitem _ k = Inl TypeError"

text \<open>\<open>d[k] = v\<close>: the key keeps its place when it is there, and goes last when it is new.\<close>

fun py_setitem :: "json \<Rightarrow> string \<Rightarrow> json \<Rightarrow> py_error + json" where
  "py_setitem (JObj kvs) k v = Inr (JObj (AList.update k v kvs))"
| "py_setitem _ k v = Inl TypeError"

text \<open>\<open>d.get(k, default)\<close>: a method of \<open>dict\<close> alone.\<close>

fun py_get :: "json \<Rightarrow> string \<Rightarrow> json \<Rightarrow> py_error + json" where
  "py_get (JObj kvs) k dflt = (case map_of kvs k of None \<Rightarrow> Inr dflt | Some v \<Rightarrow> Inr v)"
| "py_get _ k dflt = Inl AttributeError"

text \<open>The truth value of an object in an \<open>if\<close>.\<close>

fun truthy :: "json \<Rightarrow> bool" where
  "truthy JNull = False"
| "truthy (JBool b) = b"
| "truthy (JInt i) = (i \<noteq> 0)"
| "truthy (JFloat r) = (r \<noteq> 0)"
| "truthy (JStr s) = (s \<noteq> [])"
| "truthy (JArr xs) = (xs \<noteq> [])"
| "truthy (JObj kvs) = (kvs \<noteq> [])"

text \<open>
  The functions of the standard library whose text output the program only passes on are
  parameters: \<open>json.loads\<close> (\<open>Inl msg\<close> is a \<open>JSONDecodeError\<close> whose text is \<open>msg\<close>),
  \<open>json.dumps\<close>, \<open>json.dump\<close> with \<open>indent=4\<close>, and \<open>repr\<close>.
\<close>

record pylib =
  json_loads :: "string \<Rightarrow> string + json"
  json_dumps :: "json \<Rightarrow> string"
  json_dump_indent4 :: "json \<Rightarrow> string"
  py_repr :: "json \<Rightarrow> string"

text \<open>What an f-string puts in for \<open>{v}\<close>: \<open>str(v)\<close>, the text itself for a \<open>str\<close>.\<close>

definition py_str :: "pylib \<Rightarrow> json \<Rightarrow> string" where
  "py_str L v = (case v of JStr s \<Rightarrow> s | _ \<Rightarrow> py_repr L v)"

section \<open>gemini\_client.py\<close>

text \<open>A \<open>GeminiClient\<close> keeps its key; the model handle of the network mode is external.\<close>

record GeminiClient =
  api_key :: string

text \<open>\<open>GeminiClient.__init__\<close>\<close>

definition GeminiClient_init :: "string \<Rightarrow> py_error + GeminiClient" where
  "GeminiClient_init key =
     (if (key = [] \<or> key = ''YOUR_GEMINI_API_KEY'') \<and> key \<noteq> ''DUMMY_KEY_FOR_TESTING''
      then Inl (ValueError ''Gemini API key is not configured.'')
      else Inr \<lparr>api_key = key\<rparr>)"

text \<open>\<open>GeminiClient._get_mock_response\<close>\<close>

definition get_mock_response :: "pylib \<Rightarrow> string \<Rightarrow> string" where
  "get_mock_response L prompt =
     (if sublist ''generate the next logical task'' prompt
      then json_dumps L (JObj
             [(''task_description'', JStr ''Mock task: Implement the user login page.''),
              (''coding_prompt'', JStr
                 ''Create a new Streamlit page for user login with username and password fields.'')])
      else if sublist ''A task was marked as completed'' prompt
      then json_dumps L (JObj
             [(''verified'', JBool True),
              (''feedback'', JStr ''This looks great. Well done.'')])
      else ''This is a generic mock response for other queries.'')"

text \<open>
  \<open>GeminiClient.generate_response\<close>. The network call \<open>self.model.generate_content\<close> is the
  parameter \<open>net\<close>: \<open>Inr text\<close> is the reply, \<open>Inl msg\<close> an exception whose text is \<open>msg\<close>.
\<close>

definition generate_response ::
  "pylib \<Rightarrow> (string \<Rightarrow> string + string) \<Rightarrow> GeminiClient \<Rightarrow> string \<Rightarrow> string" where
  "generate_response L net self prompt =
     (if api_key self = ''DUMMY_KEY_FOR_TESTING'' then get_mock_response L prompt
      else (case net prompt of
              Inr text \<Rightarrow> text
            | Inl msg \<Rightarrow> ''An error occurred while communicating with the Gemini API: '' @ msg))"

text \<open>
  \<open>get_gemini_client\<close>. The argument is \<open>None\<close> or a string; \<open>getenv\<close> is the value of the
  environment variable \<open>GEMINI_API_KEY\<close>, \<open>None\<close> when it is not set.
\<close>

definition get_gemini_client :: "string option \<Rightarrow> string option \<Rightarrow> py_error + GeminiClient" where
  "get_gemini_client key getenv =
     (case key of
        Some k \<Rightarrow>
          (if k \<noteq> [] then GeminiClient_init k
           else (case getenv of
                   Some e \<Rightarrow> (if e \<noteq> [] then GeminiClient_init e
                              else Inl (ValueError ''API Key for Gemini not found or provided.''))
                 | None \<Rightarrow> Inl (ValueError ''API Key for Gemini not found or provided.'')))
      | None \<Rightarrow>
          (case getenv of
             Some e \<Rightarrow> (if e \<noteq> [] then GeminiClient_init e
                        else Inl (ValueError ''API Key for Gemini not found or provided.''))
           | None \<Rightarrow> Inl (ValueError ''API Key for Gemini not found or provided.'')))"

section \<open>app.py\<close>

text \<open>
  The session state of Streamlit (\<open>st.session_state\<close>) with the files on disk beside
  it. \<open>backend_calls\<close> lists the prompts handed to the completion backend, in order.
  Rendering calls (\<open>st.markdown\<close>, \<open>st.chat_message\<close>) change nothing here and are left
  out. A task and a log entry are dictionaries, as in the source.
\<close>

record state =
  chat_history :: "(string \<times> string) list"
  tasks :: "json list"
  logs :: "json list"
  notification :: "string option"
  files :: "string \<Rightarrow> string option"
  backend_calls :: "string list"

text \<open>
  How a handler ends: it returns, it asks for a rerun (\<open>st.rerun()\<close> leaves by an
  exception that no handler here catches), or an exception escapes it.
\<close>

datatype outcome = Returned | Rerun | Raised py_error

text \<open>\<open>load_json\<close>: a missing file and a file that does not parse both give \<open>{}\<close>.\<close>

definition load_json :: "pylib \<Rightarrow> (string \<Rightarrow> string option) \<Rightarrow> string \<Rightarrow> json" where
  "load_json L fs filepath =
     (case fs filepath of
        None \<Rightarrow> JObj []
      | Some text \<Rightarrow> (case json_loads L text of Inl msg \<Rightarrow> JObj [] | Inr data \<Rightarrow> data))"

text \<open>\<open>save_json\<close>: the file is overwritten with the indented text of the data.\<close>

definition save_json ::
  "pylib \<Rightarrow> json \<Rightarrow> string \<Rightarrow> (string \<Rightarrow> string option) \<Rightarrow> (string \<Rightarrow> string option)" where
  "save_json L data filepath fs = fs(filepath \<mapsto> json_dump_indent4 L data)"

definition storage_path :: string where
  "storage_path = ''ai_project_manager/storage.json''"

text \<open>\<open>log_event\<close>; \<open>stamp\<close> is what \<open>time.strftime\<close> returns at the call.\<close>

definition log_event :: "string \<Rightarrow> string \<Rightarrow> json \<Rightarrow> state \<Rightarrow> state" where
  "log_event stamp event_type details s =
     s\<lparr>logs := logs s @
          [JObj [(''timestamp'', JStr stamp), (''event'', JStr event_type), (''details'', details)]]\<rparr>"

text \<open>\<open>save_project_data\<close>\<close>

definition storage_data :: "state \<Rightarrow> json" where
  "storage_data s = JObj [(''tasks'', JArr (tasks s)), (''logs'', JArr (logs s))]"

definition save_project_data :: "pylib \<Rightarrow> state \<Rightarrow> state" where
  "save_project_data L s = s\<lparr>files := save_json L (storage_data s) storage_path (files s)\<rparr>"

text \<open>
  The start of \<open>main\<close>: the storage file is loaded, and a new session takes its tasks and
  logs from it with \<open>storage.get('tasks', [])\<close> and \<open>storage.get('logs', [])\<close>.
\<close>

definition load_storage :: "pylib \<Rightarrow> (string \<Rightarrow> string option) \<Rightarrow> py_error + json \<times> json" where
  "load_storage L fs =
     (let storage = load_json L fs storage_path
      in case py_get storage ''tasks'' (JArr []) of
           Inl e \<Rightarrow> Inl e
         | Inr ts \<Rightarrow>
             (case py_get storage ''logs'' (JArr []) of
                Inl e \<Rightarrow> Inl e
              | Inr ls \<Rightarrow> Inr (ts, ls)))"

text \<open>The expression \<open>ai_response.strip().replace('```json', '').replace('```', '')\<close>.\<close>

definition json_response_str :: "string \<Rightarrow> string" where
  "json_response_str ai_response = replace (replace (strip ai_response) ''```json'' []) ''```'' []"

text \<open>\<open>except (json.JSONDecodeError, KeyError)\<close>\<close>

fun caught :: "py_error \<Rightarrow> bool" where
  "caught (JSONDecodeError msg) = True"
| "caught (KeyError k) = True"
| "caught _ = False"

subsection \<open>handle\_task\_generation\<close>

definition generation_prompt :: "pylib \<Rightarrow> json list \<Rightarrow> string" where
  \<open>generation_prompt L ts =
     ''\<newline>    Based on the following project state (tasks and their status), generate the next logical task.\<newline>    Project history: ''
     @ py_repr L (JArr ts)
     @ ''\<newline>\<newline>    Return a JSON object with two keys:\<newline>    - "task_description": A clear and concise description of the new task.\<newline>    - "coding_prompt": A detailed, actionable prompt for an executor AI to complete the task.\<newline>    ''\<close>

definition generation_error_message :: "py_error \<Rightarrow> string \<Rightarrow> string" where
  "generation_error_message e ai_response =
     ''Failed to parse AI response for task generation: '' @ str_of_error e
     @ ''\<newline>\<newline>Raw response:\<newline>'' @ ai_response"

text \<open>
  \<open>client\<close> is the bound method \<open>gemini_client.generate_response\<close>, \<open>now\<close> the reading of
  \<open>time.time()\<close>. The \<open>try\<close> block changes the state only after the last expression that
  can raise, so the \<open>except\<close> clause sees the state as it was after the backend call.
\<close>

definition handle_task_generation ::
  "pylib \<Rightarrow> (string \<Rightarrow> string) \<Rightarrow> real \<Rightarrow> string \<Rightarrow> state \<Rightarrow> outcome \<times> state" where
  "handle_task_generation L client now stamp s =
     (let prompt = generation_prompt L (tasks s);
          ai_response = client prompt;
          s0 = s\<lparr>backend_calls := backend_calls s @ [prompt]\<rparr>;
          except = (\<lambda>e. if caught e
                         then (Returned, s0\<lparr>chat_history := chat_history s0 @
                                 [(''assistant'', generation_error_message e ai_response)]\<rparr>)
                         else (Raised e, s0))
      in case json_loads L (json_response_str ai_response) of
           Inl msg \<Rightarrow> except (JSONDecodeError msg)
         | Inr task_data \<Rightarrow>
             (case py_getitem task_data ''task_description'' of
                Inl e \<Rightarrow> except e
              | Inr d \<Rightarrow>
                  (case py_getitem task_data ''coding_prompt'' of
                     Inl e \<Rightarrow> except e
                   | Inr p \<Rightarrow>
                       (let new_id = JInt (int (length (tasks s0)) + 1);
                            new_task = JObj [(''id'', new_id), (''description'', d), (''prompt'', p),
                                             (''status'', JStr ''pending''), (''timestamp'', JFloat now)];
                            s1 = s0\<lparr>tasks := tasks s0 @ [new_task]\<rparr>;
                            s2 = log_event stamp ''Task Generated''
                                   (JObj [(''task_id'', new_id), (''description'', d)]) s1;
                            s3 = save_project_data L s2;
                            response_text = ''**New Task Generated:** '' @ py_str L d
                              @ ''\<newline>\<newline>**Prompt for Executor AI:**\<newline>```\<newline>''
                              @ py_str L p @ ''\<newline>```'';
                            s4 = s3\<lparr>chat_history := chat_history s3 @ [(''assistant'', response_text)]\<rparr>;
                            s5 = s4\<lparr>notification := Some ''New task generated!''\<rparr>
                        in (Rerun, s5)))))"

subsection \<open>handle\_task\_verification\<close>

text \<open>
  \<open>next((task for task in tasks if task['status'] == 'pending'), None)\<close>: the position of
  the first pending task. The generator stops at the first match, so only a task before
  it can raise.
\<close>

fun find_pending :: "json list \<Rightarrow> py_error + nat option" where
  "find_pending [] = Inr None"
| "find_pending (t # ts) =
     (case py_getitem t ''status'' of
        Inl e \<Rightarrow> Inl e
      | Inr st \<Rightarrow>
          (if st = JStr ''pending'' then Inr (Some 0)
           else (case find_pending ts of
                   Inl e \<Rightarrow> Inl e
                 | Inr None \<Rightarrow> Inr None
                 | Inr (Some i) \<Rightarrow> Inr (Some (Suc i)))))"

text \<open>Lines 243 to 245: the summary the user gave with the word \<open>done\<close>.\<close>

definition user_summary_of :: "string \<Rightarrow> string" where
  "user_summary_of user_input =
     (let user_summary = strip (replace user_input ''done'' [])
      in if user_summary = [] then ''User marked task as done without providing a summary.''
         else user_summary)"

definition verification_prompt :: "pylib \<Rightarrow> json \<Rightarrow> json \<Rightarrow> string \<Rightarrow> string" where
  \<open>verification_prompt L d p user_summary =
     ''\<newline>    A task was marked as completed. Verify if the user's summary indicates successful completion.\<newline>\<newline>    Task Description: ''
     @ py_str L d
     @ ''\<newline>    Original Coding Prompt: '' @ py_str L p
     @ ''\<newline>    User's Summary of Work: '' @ user_summary
     @ ''\<newline>\<newline>    Return a JSON object with "verified" (boolean) and "feedback" (string).\<newline>    If not verified, provide a follow-up question or suggestion.\<newline>    ''\<close>

definition verification_error_message :: "py_error \<Rightarrow> string \<Rightarrow> string" where
  "verification_error_message e ai_response =
     ''Failed to parse AI verification response: '' @ str_of_error e
     @ ''\<newline>\<newline>Raw response:\<newline>'' @ ai_response"

text \<open>
  The branch \<open>if verification_data.get('verified')\<close>, lines 265 to 270, for the pending
  task at position \<open>i\<close>. It returns the state reached and either the exception raised
  there or the way the branch ends.
\<close>

definition verification_accept ::
  "pylib \<Rightarrow> string \<Rightarrow> nat \<Rightarrow> string \<Rightarrow> json \<Rightarrow> state \<Rightarrow> (py_error + outcome) \<times> state" where
  "verification_accept L stamp i user_summary verification_data s =
     (case py_setitem (tasks s ! i) ''status'' (JStr ''verified'') of
        Inl e \<Rightarrow> (Inl e, s)
      | Inr current_task \<Rightarrow>
          (let s1 = s\<lparr>tasks := (tasks s)[i := current_task]\<rparr>
           in case py_getitem current_task ''id'' of
                Inl e \<Rightarrow> (Inl e, s1)
              | Inr task_id \<Rightarrow>
                  (let s2 = log_event stamp ''Task Verified''
                              (JObj [(''task_id'', task_id), (''summary'', JStr user_summary)]) s1;
                       s3 = save_project_data L s2
                   in case py_getitem current_task ''description'' of
                        Inl e \<Rightarrow> (Inl e, s3)
                      | Inr d \<Rightarrow>
                          (let s4 = s3\<lparr>notification :=
                                      Some (''Task '' @ [CHR 0x27] @ py_str L d @ [CHR 0x27] @ '' verified!'')\<rparr>
                           in case py_getitem verification_data ''feedback'' of
                                Inl e \<Rightarrow> (Inl e, s4)
                              | Inr feedback \<Rightarrow>
                                  (Inr Rerun,
                                   s4\<lparr>chat_history := chat_history s4 @
                                        [(''assistant'',
                                          ''Great job! Task verified: '' @ py_str L feedback)]\<rparr>)))))"

text \<open>The \<open>else\<close> branch, lines 272 to 278.\<close>

definition verification_reject ::
  "pylib \<Rightarrow> string \<Rightarrow> nat \<Rightarrow> string \<Rightarrow> json \<Rightarrow> state \<Rightarrow> (py_error + outcome) \<times> state" where
  "verification_reject L stamp i user_summary verification_data s =
     (case py_get verification_data ''feedback'' (JStr ''No specific feedback provided.'') of
        Inl e \<Rightarrow> (Inl e, s)
      | Inr feedback \<Rightarrow>
          (case py_getitem (tasks s ! i) ''id'' of
             Inl e \<Rightarrow> (Inl e, s)
           | Inr task_id \<Rightarrow>
               (let s1 = log_event stamp ''Verification Failed''
                           (JObj [(''task_id'', task_id), (''summary'', JStr user_summary),
                                  (''feedback'', feedback)]) s;
                    s2 = save_project_data L s1;
                    response_text = ''**Verification Failed:** '' @ py_str L feedback
                      @ ''\<newline>Please address the feedback and mark the task as 'done' again with more details.''
                in (Inr Returned,
                    s2\<lparr>chat_history := chat_history s2 @ [(''assistant'', response_text)]\<rparr>))))"

text \<open>The body of the \<open>try\<close> block, lines 261 to 278.\<close>

definition verification_try ::
  "pylib \<Rightarrow> string \<Rightarrow> nat \<Rightarrow> string \<Rightarrow> string \<Rightarrow> state \<Rightarrow> (py_error + outcome) \<times> state" where
  "verification_try L stamp i user_summary ai_response s =
     (case json_loads L (json_response_str ai_response) of
        Inl msg \<Rightarrow> (Inl (JSONDecodeError msg), s)
      | Inr verification_data \<Rightarrow>
          (case py_get verification_data ''verified'' JNull of
             Inl e \<Rightarrow> (Inl e, s)
           | Inr v \<Rightarrow>
               (if truthy v then verification_accept L stamp i user_summary verification_data s
                else verification_reject L stamp i user_summary verification_data s)))"

text \<open>
  A pending task has the key \<open>status\<close>, so it is not the empty dictionary and
  \<open>not current_task\<close> holds only for \<open>None\<close>.
\<close>

definition handle_task_verification ::
  "pylib \<Rightarrow> (string \<Rightarrow> string) \<Rightarrow> string \<Rightarrow> string \<Rightarrow> state \<Rightarrow> outcome \<times> state" where
  "handle_task_verification L client stamp user_input s =
     (case find_pending (tasks s) of
        Inl e \<Rightarrow> (Raised e, s)
      | Inr None \<Rightarrow>
          (Returned, s\<lparr>chat_history := chat_history s @
                        [(''assistant'', ''There are no pending tasks to verify.'')]\<rparr>)
      | Inr (Some i) \<Rightarrow>
          (let user_summary = user_summary_of user_input
           in case py_getitem (tasks s ! i) ''description'' of
                Inl e \<Rightarrow> (Raised e, s)
              | Inr d \<Rightarrow>
                  (case py_getitem (tasks s ! i) ''prompt'' of
                     Inl e \<Rightarrow> (Raised e, s)
                   | Inr p \<Rightarrow>
                       (let prompt = verification_prompt L d p user_summary;
                            ai_response = client prompt;
                            s0 = s\<lparr>backend_calls := backend_calls s @ [prompt]\<rparr>
                        in case verification_try L stamp i user_summary ai_response s0 of
                             (Inr out, s1) \<Rightarrow> (out, s1)
                           | (Inl e, s1) \<Rightarrow>
                               (if caught e
                                then (Returned, s1\<lparr>chat_history := chat_history s1 @
                                        [(''assistant'', verification_error_message e ai_response)]\<rparr>)
                                else (Raised e, s1))))))"

subsection \<open>The chat input in main\<close>

text \<open>
  Lines 160 to 182 of \<open>main\<close>. \<open>gemini_client\<close> is \<open>None\<close> when the client could not be built;
  \<open>st.chat_input\<close> gives \<open>None\<close> or a text, and nothing happens for an empty one.
\<close>

definition generic_prompt :: "pylib \<Rightarrow> string \<Rightarrow> json list \<Rightarrow> string" where
  "generic_prompt L user_input ts =
     ''User query: '' @ [CHR 0x27] @ user_input @ [CHR 0x27]
     @ ''. Previous context: '' @ py_repr L (JArr ts)"

definition process_chat_input ::
  "pylib \<Rightarrow> (string \<Rightarrow> string) option \<Rightarrow> real \<Rightarrow> string \<Rightarrow> string \<Rightarrow> state \<Rightarrow> outcome \<times> state" where
  "process_chat_input L gemini_client now stamp user_input s =
     (if user_input = [] then (Returned, s)
      else
        (let s0 = s\<lparr>chat_history := chat_history s @ [(''user'', user_input)]\<rparr>
         in case gemini_client of
              Some client \<Rightarrow>
                (if sublist ''what's next'' (lower user_input)
                 then handle_task_generation L client now stamp s0
                 else if prefix ''done'' (lower user_input)
                 then handle_task_verification L client stamp user_input s0
                 else
                   (let prompt = generic_prompt L user_input (tasks s0);
                        ai_response = client prompt
                    in (Returned, s0\<lparr>chat_history := chat_history s0 @ [(''assistant'', ai_response)],
                                     backend_calls := backend_calls s0 @ [prompt]\<rparr>)))
            | None \<Rightarrow>
                (Returned, s0\<lparr>chat_history := chat_history s0 @
                   [(''assistant'',
                     ''AI is not configured. Please enter your API key in the sidebar.'')]\<rparr>)))"

section \<open>Sequences of reducer calls\<close>

text \<open>A task is pending when its \<open>status\<close> is the string \<open>pending\<close>.\<close>

definition is_pending :: "json \<Rightarrow> bool" where
  "is_pending t = (py_getitem t ''status'' = Inr (JStr ''pending''))"

definition has_status :: "json \<Rightarrow> bool" where
  "has_status t = (\<not> isl (py_getitem t ''status''))"

text \<open>
  One call of a reducer with what it reads from outside: the backend, the clock and, for
  the verification, the text the user typed.
\<close>

datatype call =
    Generate "string \<Rightarrow> string" real string
  | Verify "string \<Rightarrow> string" string string

fun step :: "pylib \<Rightarrow> call \<Rightarrow> state \<Rightarrow> outcome \<times> state" where
  "step L (Generate client now stamp) s = handle_task_generation L client now stamp s"
| "step L (Verify client stamp user_input) s = handle_task_verification L client stamp user_input s"

fun run :: "pylib \<Rightarrow> call list \<Rightarrow> state \<Rightarrow> state" where
  "run L [] s = s"
| "run L (c # cs) s = run L cs (snd (step L c s))"


text \<open>A sequence of generation calls each of which builds its task and asks for the rerun.\<close>

fun all_generated :: "pylib \<Rightarrow> call list \<Rightarrow> state \<Rightarrow> bool" where
  "all_generated L [] s = True"
| "all_generated L (Generate client now stamp # cs) s =
     (fst (step L (Generate client now stamp) s) = Rerun
      \<and> all_generated L cs (snd (step L (Generate client now stamp) s)))"
| "all_generated L (Verify client stamp user_input # cs) s = False"

section \<open>A parse failure as the user sees it\<close>


section \<open>The summary as the specification words it\<close>

text \<open>
  The specification speaks of the input after trimming the literal word \<open>done\<close> and the
  surrounding white space: the word is taken off the two ends of the input, where
  trimming acts, and the white space around what is left is stripped.
\<close>

definition trim_done_spec :: "string \<Rightarrow> string" where
  "trim_done_spec user_input =
     (let a = strip user_input;
          b = (if prefix ''done'' a then drop 4 a else a);
          c = (if suffix ''done'' b then take (length b - 4) b else b)
      in strip c)"

section \<open>Concrete inputs for the examples\<close>

text \<open>The two dictionaries of the mock mode and the text \<open>json.dumps\<close> gives for them.\<close>

definition mock_task :: json where
  "mock_task = JObj
     [(''task_description'', JStr ''Mock task: Implement the user login page.''),
      (''coding_prompt'', JStr
         ''Create a new Streamlit page for user login with username and password fields.'')]"

definition mock_task_text :: string where
  \<open>mock_task_text =
     ''{"task_description": "Mock task: Implement the user login page.", "coding_prompt": "Create a new Streamlit page for user login with username and password fields."}''\<close>

definition mock_verified :: json where
  "mock_verified = JObj [(''verified'', JBool True), (''feedback'', JStr ''This looks great. Well done.'')]"

definition mock_verified_text :: string where
  \<open>mock_verified_text = ''{"verified": true, "feedback": "This looks great. Well done."}''\<close>

text \<open>The storage of a session without tasks and logs, and its indented text.\<close>

definition empty_storage :: json where
  "empty_storage = JObj [(''tasks'', JArr []), (''logs'', JArr [])]"

definition empty_storage_text :: string where
  \<open>empty_storage_text = ''{\<newline>    "tasks": [],\<newline>    "logs": []\<newline>}''\<close>

text \<open>A pending task as the generation reducer builds it.\<close>

definition login_task :: json where
  "login_task = JObj
     [(''id'', JInt 1), (''description'', JStr ''Implement login page''),
      (''prompt'', JStr ''Create the login form.''), (''status'', JStr ''pending''),
      (''timestamp'', JFloat 0)]"

text \<open>The storage of a session whose only task is this one, and its indented text.\<close>

definition login_storage :: json where
  "login_storage = JObj [(''tasks'', JArr [login_task]), (''logs'', JArr [])]"

definition login_storage_text :: string where
  \<open>login_storage_text =
     ''{\<newline>    "tasks": [\<newline>        {\<newline>            "id": 1,\<newline>            "description": "Implement login page",\<newline>            "prompt": "Create the login form.",\<newline>            "status": "pending",\<newline>            "timestamp": 0.0\<newline>        }\<newline>    ],\<newline>    "logs": []\<newline>}''\<close>

text \<open>
  A response whose coding prompt holds a code fence, what \<open>json.loads\<close> gives for it, and
  the same two without the three backticks.
\<close>

definition fenced_task_text :: string where
  \<open>fenced_task_text = ''{"task_description": "a", "coding_prompt": "x```y"}''\<close>

definition fenced_task :: json where
  "fenced_task = JObj [(''task_description'', JStr ''a''), (''coding_prompt'', JStr ''x```y'')]"

definition cleaned_task_text :: string where
  \<open>cleaned_task_text = ''{"task_description": "a", "coding_prompt": "xy"}''\<close>

definition cleaned_task :: json where
  "cleaned_task = JObj [(''task_description'', JStr ''a''), (''coding_prompt'', JStr ''xy'')]"

text \<open>
  A stand-in for the library in the examples. It gives Python's own answers for the
  texts and values named in this section and for the text \<open>{}\<close>; every other text is
  refused by \<open>json.loads\<close> and every other value printed as a fixed text, on which no
  example depends.
\<close>

definition example_lib :: pylib where
  "example_lib =
     \<lparr>json_loads = (\<lambda>text.
         if text = mock_task_text then Inr mock_task
         else if text = mock_verified_text then Inr mock_verified
         else if text = ''{}'' then Inr (JObj [])
         else if text = empty_storage_text then Inr empty_storage
         else if text = login_storage_text then Inr login_storage
         else if text = fenced_task_text then Inr fenced_task
         else if text = cleaned_task_text then Inr cleaned_task
         else Inl ''Expecting value: line 1 column 1 (char 0)''),
      json_dumps = (\<lambda>v.
         if v = mock_task then mock_task_text
         else if v = mock_verified then mock_verified_text
         else ''null''),
      json_dump_indent4 = (\<lambda>v.
         if v = empty_storage then empty_storage_text
         else if v = login_storage then login_storage_text
         else ''null''),
      py_repr = (\<lambda>v. if v = JArr [] then ''[]'' else ''...'')\<rparr>"

text \<open>A session that has just started with nothing stored, and one with the pending task.\<close>

definition empty_state :: state where
  "empty_state =
     \<lparr>chat_history = [], tasks = [], logs = [], notification = None,
      files = (\<lambda>path. None), backend_calls = []\<rparr>"

definition one_pending_state :: state where
  "one_pending_state = empty_state\<lparr>tasks := [login_task]\<rparr>"

section \<open>The completion backend adapter\<close>

text \<open>
  Claim C5, as the code has it. A client built with the key \<open>DUMMY_KEY_FOR_TESTING\<close>
  answers from the prompt alone and never consults the network: a prompt that contains
  \<open>generate the next logical task\<close> gets the text \<open>json.dumps\<close> gives for the fixed task
  proposal; otherwise a prompt that contains \<open>A task was marked as completed\<close>, with the
  capital A and the article, gets the text of the fixed verification payload; every
  other prompt gets the fixed generic text.
\<close>

theorem C5_mock_response:
  "GeminiClient_init ''DUMMY_KEY_FOR_TESTING'' = Inr c \<Longrightarrow>
   generate_response L net c prompt =
     (if sublist ''generate the next logical task'' prompt
      then json_dumps L (JObj
             [(''task_description'', JStr ''Mock task: Implement the user login page.''),
              (''coding_prompt'', JStr
                 ''Create a new Streamlit page for user login with username and password fields.'')])
      else if sublist ''A task was marked as completed'' prompt
      then json_dumps L (JObj
             [(''verified'', JBool True), (''feedback'', JStr ''This looks great. Well done.'')])
      else ''This is a generic mock response for other queries.'')
   \<and> generate_response L net c prompt = generate_response L net' c prompt"
  by (auto simp: GeminiClient_init_def generate_response_def get_mock_response_def)

theorem C5_mock_response_witness:
  "GeminiClient_init ''DUMMY_KEY_FOR_TESTING'' = Inr \<lparr>api_key = ''DUMMY_KEY_FOR_TESTING''\<rparr>
   \<and> generate_response example_lib (\<lambda>p. Inl ''offline'') \<lparr>api_key = ''DUMMY_KEY_FOR_TESTING''\<rparr>
         ''Please generate the next logical task.'' = mock_task_text
   \<and> generate_response example_lib (\<lambda>p. Inl ''offline'') \<lparr>api_key = ''DUMMY_KEY_FOR_TESTING''\<rparr>
         ''A task was marked as completed.'' = mock_verified_text
   \<and> generate_response example_lib (\<lambda>p. Inl ''offline'') \<lparr>api_key = ''DUMMY_KEY_FOR_TESTING''\<rparr>
         ''hello'' = ''This is a generic mock response for other queries.''"
proof -
  have h: "GeminiClient_init ''DUMMY_KEY_FOR_TESTING'' = Inr \<lparr>api_key = ''DUMMY_KEY_FOR_TESTING''\<rparr>"
    by (simp add: GeminiClient_init_def)
  have s1: "sublist ''generate the next logical task'' ''Please generate the next logical task.''"
    by (simp add: sublist_code)
  have s2: "\<not> sublist ''generate the next logical task'' ''A task was marked as completed.''"
    by (simp add: sublist_code)
  have s3: "sublist ''A task was marked as completed'' ''A task was marked as completed.''"
    by (simp add: sublist_code)
  have s4: "\<not> sublist ''generate the next logical task'' ''hello''"
    by (simp add: sublist_code)
  have s5: "\<not> sublist ''A task was marked as completed'' ''hello''"
    by (simp add: sublist_code)
  have d1: "json_dumps example_lib mock_task = mock_task_text"
    by (simp add: example_lib_def)
  have d2: "json_dumps example_lib mock_verified = mock_verified_text"
    by (simp add: example_lib_def mock_verified_def mock_task_def)
  show ?thesis
    using h s1 s2 s3 s4 s5 d1 d2
      C5_mock_response [OF h, of example_lib "\<lambda>p. Inl ''offline''"
        "''Please generate the next logical task.''"]
      C5_mock_response [OF h, of example_lib "\<lambda>p. Inl ''offline''"
        "''A task was marked as completed.''"]
      C5_mock_response [OF h, of example_lib "\<lambda>p. Inl ''offline''" "''hello''"]
    by (simp add: mock_task_def mock_verified_def)
qed

text \<open>
  Claim C5 as the specification states it fails: the specification's pattern
  \<open>task was marked as completed\<close> is only a part of the pattern of the code. A prompt that
  contains the one and not the other gets the generic text, which is not the
  verification payload.
\<close>

theorem C5_counterexample:
  "sublist ''task was marked as completed'' ''The task was marked as completed''
   \<and> \<not> sublist ''generate the next logical task'' ''The task was marked as completed''
   \<and> generate_response example_lib (\<lambda>p. Inl ''offline'') \<lparr>api_key = ''DUMMY_KEY_FOR_TESTING''\<rparr>
        ''The task was marked as completed'' = ''This is a generic mock response for other queries.''
   \<and> ''This is a generic mock response for other queries.''
        \<noteq> json_dumps example_lib (JObj
             [(''verified'', JBool True), (''feedback'', JStr ''This looks great. Well done.'')])"
  by (simp add: sublist_code generate_response_def get_mock_response_def example_lib_def
      mock_task_def mock_verified_def mock_verified_text_def)

text \<open>
  Claim C8, as the code has it. A non-empty explicit key is the key used, whatever the
  environment holds; without one (\<open>None\<close> or the empty text) a non-empty value of the
  environment variable is the key used; with neither the factory raises. The key used
  is refused exactly when it is the placeholder \<open>YOUR_GEMINI_API_KEY\<close>, so the
  construction fails exactly when the key selected in this way is missing, empty or the
  placeholder.
\<close>

theorem C8_construction:
  "(k \<noteq> [] \<longrightarrow> get_gemini_client (Some k) env = GeminiClient_init k)
   \<and> get_gemini_client (Some []) env = get_gemini_client None env
   \<and> (e \<noteq> [] \<longrightarrow> get_gemini_client None (Some e) = GeminiClient_init e)
   \<and> get_gemini_client None (Some []) = Inl (ValueError ''API Key for Gemini not found or provided.'')
   \<and> get_gemini_client None None = Inl (ValueError ''API Key for Gemini not found or provided.'')
   \<and> (k \<noteq> [] \<longrightarrow>
        GeminiClient_init k =
          (if k = ''YOUR_GEMINI_API_KEY'' then Inl (ValueError ''Gemini API key is not configured.'')
           else Inr \<lparr>api_key = k\<rparr>))"
  by (auto simp: get_gemini_client_def GeminiClient_init_def split: option.splits)

theorem C8_construction_witness:
  "get_gemini_client (Some ''secret'') (Some ''other'') = Inr \<lparr>api_key = ''secret''\<rparr>
   \<and> get_gemini_client None (Some ''other'') = Inr \<lparr>api_key = ''other''\<rparr>
   \<and> get_gemini_client (Some []) (Some ''other'') = Inr \<lparr>api_key = ''other''\<rparr>
   \<and> get_gemini_client None None = Inl (ValueError ''API Key for Gemini not found or provided.'')"
  using C8_construction [of "''secret''" "Some ''other''" "''other''"]
    C8_construction [of "''other''" "Some ''other''" "''other''"]
  by simp

text \<open>
  Claim C8 as the specification states it fails: with the placeholder as the explicit
  key the construction fails although the environment holds a key with which it
  succeeds.
\<close>

theorem C8_counterexample:
  "get_gemini_client None (Some ''secret'') = Inr \<lparr>api_key = ''secret''\<rparr>
   \<and> get_gemini_client (Some ''YOUR_GEMINI_API_KEY'') (Some ''secret'')
       = Inl (ValueError ''Gemini API key is not configured.'')"
  by (simp add: get_gemini_client_def GeminiClient_init_def)

section \<open>The chat input\<close>

lemma generation_backend_calls:
  "backend_calls (snd (handle_task_generation L client now stamp s))
     = backend_calls s @ [generation_prompt L (tasks s)]"
  by (simp add: handle_task_generation_def Let_def log_event_def save_project_data_def
      split: sum.splits)

lemma generation_prompt_not_verification:
  "generation_prompt L ts \<noteq> verification_prompt L d p x"
  by (simp add: generation_prompt_def verification_prompt_def)

text \<open>
  Claim C10. An input that contains \<open>what's next\<close> in its lower-cased text and also
  starts with \<open>done\<close> in its lower-cased text goes to the generation reducer: the result
  of the pass is the result of \<open>handle_task_generation\<close>, and the one prompt the backend
  receives is the generation prompt, which is no verification prompt.
\<close>

theorem C10_whats_next_precedence:
  "sublist ''what's next'' (lower u) \<Longrightarrow> prefix ''done'' (lower u) \<Longrightarrow>
   process_chat_input L (Some client) now stamp u s =
     handle_task_generation L client now stamp (s\<lparr>chat_history := chat_history s @ [(''user'', u)]\<rparr>)
   \<and> backend_calls (snd (process_chat_input L (Some client) now stamp u s))
       = backend_calls s @ [generation_prompt L (tasks s)]
   \<and> generation_prompt L (tasks s) \<noteq> verification_prompt L d p x"
proof -
  assume nxt: "sublist ''what's next'' (lower u)" and dn: "prefix ''done'' (lower u)"
  from dn have "u \<noteq> []" by (auto simp: lower_def)
  with nxt have eq: "process_chat_input L (Some client) now stamp u s =
     handle_task_generation L client now stamp (s\<lparr>chat_history := chat_history s @ [(''user'', u)]\<rparr>)"
    by (simp add: process_chat_input_def)
  show ?thesis
    by (simp add: eq generation_backend_calls generation_prompt_not_verification)
qed

theorem C10_whats_next_precedence_witness:
  "sublist ''what's next'' (lower ''done, what's next'') \<and> prefix ''done'' (lower ''done, what's next'')
   \<and> process_chat_input example_lib (Some (\<lambda>p. mock_task_text)) 0 [] ''done, what's next'' one_pending_state
       = handle_task_generation example_lib (\<lambda>p. mock_task_text) 0 []
           (one_pending_state\<lparr>chat_history := chat_history one_pending_state @ [(''user'', ''done, what's next'')]\<rparr>)"
proof -
  have a: "sublist ''what's next'' (lower ''done, what's next'')" by code_simp
  have b: "prefix ''done'' (lower ''done, what's next'')" by code_simp
  show ?thesis
    using a b C10_whats_next_precedence [OF a b, of example_lib "\<lambda>p. mock_task_text" 0 "[]" one_pending_state]
    by simp
qed

text \<open>
  Claim C6. With a backend configured, a non-empty input is first recorded in the chat
  and then classified: \<open>what's next\<close> anywhere in the lower-cased input dispatches the
  generation reducer; otherwise an input whose lower-cased text starts with \<open>done\<close>
  dispatches the verification reducer on the input; otherwise the backend receives one
  prompt, which holds the input verbatim and the text of the whole task list, and its
  reply is appended to the chat.
\<close>

theorem C6_classification:
  "u \<noteq> [] \<Longrightarrow>
   (sublist ''what's next'' (lower u) \<longrightarrow>
      process_chat_input L (Some client) now stamp u s =
        handle_task_generation L client now stamp
          (s\<lparr>chat_history := chat_history s @ [(''user'', u)]\<rparr>))
   \<and> (\<not> sublist ''what's next'' (lower u) \<and> prefix ''done'' (lower u) \<longrightarrow>
      process_chat_input L (Some client) now stamp u s =
        handle_task_verification L client stamp u
          (s\<lparr>chat_history := chat_history s @ [(''user'', u)]\<rparr>))
   \<and> (\<not> sublist ''what's next'' (lower u) \<and> \<not> prefix ''done'' (lower u) \<longrightarrow>
      process_chat_input L (Some client) now stamp u s =
        (Returned,
         s\<lparr>chat_history := chat_history s @
              [(''user'', u), (''assistant'', client (generic_prompt L u (tasks s)))],
           backend_calls := backend_calls s @ [generic_prompt L u (tasks s)]\<rparr>))
   \<and> sublist u (generic_prompt L u (tasks s))
   \<and> sublist (py_repr L (JArr (tasks s))) (generic_prompt L u (tasks s))"
proof -
  assume "u \<noteq> []"
  have "sublist u (''User query: '' @ [CHR 0x27] @ u @ ([CHR 0x27] @ ''. Previous context: '' @ py_repr L (JArr (tasks s))))"
    by (rule sublist_appendI [of u "''User query: '' @ [CHR 0x27]", simplified append_assoc])
  then have 1: "sublist u (generic_prompt L u (tasks s))"
    by (simp add: generic_prompt_def)
  have 2: "sublist (py_repr L (JArr (tasks s))) (generic_prompt L u (tasks s))"
    unfolding generic_prompt_def
    by (metis append.assoc sublist_append_leftI)
  from \<open>u \<noteq> []\<close> show ?thesis
    by (simp add: 1 2 process_chat_input_def Let_def)
qed

theorem C6_classification_witness:
  "process_chat_input example_lib (Some (\<lambda>p. ''ok'')) 0 [] ''What's next?'' empty_state
     = handle_task_generation example_lib (\<lambda>p. ''ok'') 0 []
         (empty_state\<lparr>chat_history := [(''user'', ''What's next?'')]\<rparr>)
   \<and> process_chat_input example_lib (Some (\<lambda>p. ''ok'')) 0 [] ''Done, added login form'' empty_state
     = handle_task_verification example_lib (\<lambda>p. ''ok'') [] ''Done, added login form''
         (empty_state\<lparr>chat_history := [(''user'', ''Done, added login form'')]\<rparr>)
   \<and> process_chat_input example_lib (Some (\<lambda>p. ''ok'')) 0 [] ''hello'' empty_state
     = (Returned,
        empty_state\<lparr>chat_history := [(''user'', ''hello''), (''assistant'', ''ok'')],
                     backend_calls := [''User query: '' @ [CHR 0x27] @ ''hello'' @ [CHR 0x27]
                                       @ ''. Previous context: []'']\<rparr>)"
proof -
  have a: "sublist ''what's next'' (lower ''What's next?'')" by code_simp
  have b: "\<not> sublist ''what's next'' (lower ''Done, added login form'')
           \<and> prefix ''done'' (lower ''Done, added login form'')" by code_simp
  have c: "\<not> sublist ''what's next'' (lower ''hello'') \<and> \<not> prefix ''done'' (lower ''hello'')"
    by code_simp
  have g: "generic_prompt example_lib ''hello'' [] =
             ''User query: '' @ [CHR 0x27] @ ''hello'' @ [CHR 0x27] @ ''. Previous context: []''"
    by (simp add: generic_prompt_def example_lib_def)
  show ?thesis
    using a b c g
      C6_classification [of "''What's next?''" example_lib "\<lambda>p. ''ok''" 0 "[]" empty_state]
      C6_classification [of "''Done, added login form''" example_lib "\<lambda>p. ''ok''" 0 "[]" empty_state]
      C6_classification [of "''hello''" example_lib "\<lambda>p. ''ok''" 0 "[]" empty_state]
    by (simp add: empty_state_def)
qed

section \<open>Verification without a pending task\<close>

lemma find_pending_none:
  "list_all (\<lambda>t. has_status t \<and> \<not> is_pending t) ts \<Longrightarrow> find_pending ts = Inr None"
  by (induction ts) (auto simp: has_status_def is_pending_def split: sum.splits)

text \<open>
  Claim C4. When every task has a status and none is pending (the empty list too), the
  verification reducer returns at once: tasks, logs, files and notification are as
  before, the backend receives no prompt, and the chat gains exactly the fixed message
  \<open>There are no pending tasks to verify.\<close>
\<close>

theorem C4_nothing_to_verify:
  "list_all (\<lambda>t. has_status t \<and> \<not> is_pending t) (tasks s) \<Longrightarrow>
   fst (handle_task_verification L client stamp u s) = Returned
   \<and> tasks (snd (handle_task_verification L client stamp u s)) = tasks s
   \<and> logs (snd (handle_task_verification L client stamp u s)) = logs s
   \<and> files (snd (handle_task_verification L client stamp u s)) = files s
   \<and> notification (snd (handle_task_verification L client stamp u s)) = notification s
   \<and> backend_calls (snd (handle_task_verification L client stamp u s)) = backend_calls s
   \<and> chat_history (snd (handle_task_verification L client stamp u s))
       = chat_history s @ [(''assistant'', ''There are no pending tasks to verify.'')]"
  by (simp add: handle_task_verification_def find_pending_none)

theorem C4_nothing_to_verify_witness:
  "list_all (\<lambda>t. has_status t \<and> \<not> is_pending t) (tasks empty_state)
   \<and> handle_task_verification example_lib (\<lambda>p. mock_verified_text) [] ''done'' empty_state
       = (Returned, empty_state\<lparr>chat_history := [(''assistant'', ''There are no pending tasks to verify.'')]\<rparr>)
   \<and> list_all (\<lambda>t. has_status t \<and> \<not> is_pending t)
        (tasks (empty_state\<lparr>tasks := [JObj [(''id'', JInt 1), (''status'', JStr ''verified'')]]\<rparr>))
   \<and> chat_history (snd (handle_task_verification example_lib (\<lambda>p. mock_verified_text) [] ''done''
        (empty_state\<lparr>tasks := [JObj [(''id'', JInt 1), (''status'', JStr ''verified'')]]\<rparr>)))
       = [(''assistant'', ''There are no pending tasks to verify.'')]"
proof -
  have a: "list_all (\<lambda>t. has_status t \<and> \<not> is_pending t) (tasks empty_state)"
    by (simp add: empty_state_def)
  have b: "list_all (\<lambda>t. has_status t \<and> \<not> is_pending t)
        (tasks (empty_state\<lparr>tasks := [JObj [(''id'', JInt 1), (''status'', JStr ''verified'')]]\<rparr>))"
    by (simp add: has_status_def is_pending_def)
  show ?thesis
    using a b
      C4_nothing_to_verify [OF a, of example_lib "\<lambda>p. mock_verified_text" "[]" "''done''"]
      C4_nothing_to_verify [OF b, of example_lib "\<lambda>p. mock_verified_text" "[]" "''done''"]
    by (cases "handle_task_verification example_lib (\<lambda>p. mock_verified_text) [] ''done'' empty_state")
       (simp add: empty_state_def)
qed

section \<open>The storage file\<close>

text \<open>
  What the repository itself does for the storage round trip of claim C9.
  \<open>save_project_data\<close> puts the tasks and the logs, in their order, under the keys
  \<open>tasks\<close> and \<open>logs\<close> and writes the text the encoder of the library gives for this
  object to the storage file; \<open>load_json\<close> on that file hands back what the decoder of the
  library makes of this very text, and \<open>{}\<close> when the decoder refuses it. Whether the
  decoder gives the object back, floats among its values, is a property of the library
  and not of this program; the library is a parameter here.
\<close>

lemma load_after_save:
  "files (save_project_data L s) storage_path
     = Some (json_dump_indent4 L (JObj [(''tasks'', JArr (tasks s)), (''logs'', JArr (logs s))]))
   \<and> load_json L (files (save_project_data L s)) storage_path
     = (case json_loads L
              (json_dump_indent4 L (JObj [(''tasks'', JArr (tasks s)), (''logs'', JArr (logs s))])) of
          Inl msg \<Rightarrow> JObj []
        | Inr data \<Rightarrow> data)"
  by (simp add: load_json_def save_project_data_def save_json_def storage_data_def)

section \<open>The verification prompt\<close>

lemma verification_try_backend_calls:
  "backend_calls (snd (verification_try L stamp i summary ai_response s)) = backend_calls s"
  by (simp add: verification_try_def verification_accept_def verification_reject_def Let_def
      log_event_def save_project_data_def split: sum.splits)

lemma verification_backend_calls:
  assumes "find_pending (tasks s) = Inr (Some i)"
    and "py_getitem (tasks s ! i) ''description'' = Inr d"
    and "py_getitem (tasks s ! i) ''prompt'' = Inr p"
  shows "backend_calls (snd (handle_task_verification L client stamp u s))
           = backend_calls s @ [verification_prompt L d p (user_summary_of u)]"
proof -
  let ?q = "verification_prompt L d p (user_summary_of u)"
  let ?s0 = "s\<lparr>backend_calls := backend_calls s @ [?q]\<rparr>"
  obtain r s1 where t: "verification_try L stamp i (user_summary_of u) (client ?q) ?s0 = (r, s1)"
    by (cases "verification_try L stamp i (user_summary_of u) (client ?q) ?s0")
  have "backend_calls s1 = backend_calls ?s0"
    using verification_try_backend_calls [of L stamp i "user_summary_of u" "client ?q" ?s0]
    by (simp add: t)
  then show ?thesis
    using assms t by (simp add: handle_task_verification_def Let_def split: sum.splits)
qed

lemma sublist_append_left: "sublist x r \<Longrightarrow> sublist x (a @ r)"
  by (metis append_assoc sublist_def)

lemma verification_prompt_embeds:
  "sublist (py_str L d) (verification_prompt L d p x)
   \<and> sublist (py_str L p) (verification_prompt L d p x)
   \<and> sublist x (verification_prompt L d p x)"
proof -
  have 1: "sublist (py_str L d) (verification_prompt L d p x)"
    unfolding verification_prompt_def by (rule sublist_appendI)
  have 2: "sublist (py_str L p) (verification_prompt L d p x)"
    unfolding verification_prompt_def
    by (rule sublist_append_left, rule sublist_append_left, rule sublist_appendI)
  have 3: "sublist x (verification_prompt L d p x)"
    unfolding verification_prompt_def
    by (rule sublist_append_left, rule sublist_append_left, rule sublist_append_left,
        rule sublist_append_left, rule sublist_appendI)
  from 1 2 3 show ?thesis by simp
qed

text \<open>
  With a pending task that has a description and a prompt, the verification reducer
  sends the backend one prompt, which holds the description, the original coding prompt
  and the summary that line 243 to 245 compute from the input.
\<close>

lemma verification_prompt_sent:
  "find_pending (tasks s) = Inr (Some i) \<Longrightarrow>
   py_getitem (tasks s ! i) ''description'' = Inr d \<Longrightarrow>
   py_getitem (tasks s ! i) ''prompt'' = Inr p \<Longrightarrow>
   backend_calls (snd (handle_task_verification L client stamp u s))
     = backend_calls s @ [verification_prompt L d p (user_summary_of u)]
   \<and> sublist (py_str L d) (verification_prompt L d p (user_summary_of u))
   \<and> sublist (py_str L p) (verification_prompt L d p (user_summary_of u))
   \<and> sublist (user_summary_of u) (verification_prompt L d p (user_summary_of u))"
  using verification_backend_calls [of s i d p L client stamp u]
    verification_prompt_embeds [of L d p "user_summary_of u"]
  by simp

text \<open>
  Claim C7 does not hold of the code. Line 243 is to take the command word off the
  input, and it removes the four letters \<open>done\<close> wherever they stand, in lower case
  only. The input \<open>done: redone the page\<close> is dispatched to the verification of the
  pending task; the summary in the prompt the backend receives is \<open>: re the page\<close>, where
  the input with the word trimmed is \<open>: redone the page\<close>. The input \<open>Done\<close> is dispatched
  too, since line 169 lowers the input first; nothing but the command word was typed,
  and the summary is \<open>Done\<close>, not the placeholder.
\<close>

theorem C7_summary_failing_input:
  "prefix ''done'' (lower ''done: redone the page'')
   \<and> \<not> sublist ''what's next'' (lower ''done: redone the page'')
   \<and> trim_done_spec ''done: redone the page'' = '': redone the page''
   \<and> user_summary_of ''done: redone the page'' = '': re the page''
   \<and> backend_calls (snd (handle_task_verification example_lib (\<lambda>q. mock_verified_text) []
        ''done: redone the page'' one_pending_state))
       = [verification_prompt example_lib (JStr ''Implement login page'')
            (JStr ''Create the login form.'') '': re the page'']
   \<and> prefix ''done'' (lower ''Done'')
   \<and> \<not> sublist ''what's next'' (lower ''Done'')
   \<and> trim_done_spec ''done'' = []
   \<and> user_summary_of ''done'' = ''User marked task as done without providing a summary.''
   \<and> user_summary_of ''Done'' = ''Done''"
proof -
  have a: "prefix ''done'' (lower ''done: redone the page'')
           \<and> \<not> sublist ''what's next'' (lower ''done: redone the page'')"
    by code_simp
  have b: "user_summary_of ''done: redone the page'' = '': re the page''"
    by (simp add: user_summary_of_def replace_def strip_def is_space_def)
  have c: "trim_done_spec ''done: redone the page'' = '': redone the page''"
    by (simp add: trim_done_spec_def strip_def is_space_def suffix_def)
  have t: "find_pending (tasks one_pending_state) = Inr (Some 0)"
    "py_getitem (tasks one_pending_state ! 0) ''description'' = Inr (JStr ''Implement login page'')"
    "py_getitem (tasks one_pending_state ! 0) ''prompt'' = Inr (JStr ''Create the login form.'')"
    "backend_calls one_pending_state = []"
    by (simp_all add: one_pending_state_def empty_state_def login_task_def)
  have d: "backend_calls (snd (handle_task_verification example_lib (\<lambda>q. mock_verified_text) []
        ''done: redone the page'' one_pending_state))
       = [verification_prompt example_lib (JStr ''Implement login page'')
            (JStr ''Create the login form.'') '': re the page'']"
    using verification_prompt_sent [OF t(1) t(2) t(3), of example_lib "\<lambda>q. mock_verified_text" "[]"
        "''done: redone the page''"]
    by (simp add: t(4) b)
  have e: "prefix ''done'' (lower ''Done'') \<and> \<not> sublist ''what's next'' (lower ''Done'')"
    by code_simp
  have f: "trim_done_spec ''done'' = []"
    by (simp add: trim_done_spec_def strip_def is_space_def suffix_def)
  have g: "user_summary_of ''done'' = ''User marked task as done without providing a summary.''"
    by (simp add: user_summary_of_def replace_def strip_def)
  have h: "user_summary_of ''Done'' = ''Done''"
    by (simp add: user_summary_of_def replace_def strip_def is_space_def)
  from a b c d e f g h show ?thesis by simp
qed

section \<open>The generation reducer\<close>

lemma generation_success:
  assumes "json_loads L (json_response_str (client (generation_prompt L (tasks s)))) = Inr task_data"
    and "py_getitem task_data ''task_description'' = Inr d"
    and "py_getitem task_data ''coding_prompt'' = Inr p"
  shows "fst (handle_task_generation L client now stamp s) = Rerun"
    and "tasks (snd (handle_task_generation L client now stamp s)) =
           tasks s @ [JObj [(''id'', JInt (int (length (tasks s)) + 1)), (''description'', d),
                            (''prompt'', p), (''status'', JStr ''pending''),
                            (''timestamp'', JFloat now)]]"
    and "logs (snd (handle_task_generation L client now stamp s)) =
           logs s @ [JObj [(''timestamp'', JStr stamp), (''event'', JStr ''Task Generated''),
                           (''details'', JObj [(''task_id'', JInt (int (length (tasks s)) + 1)),
                                               (''description'', d)])]]"
    and "files (snd (handle_task_generation L client now stamp s)) =
           (files s)(storage_path \<mapsto> json_dump_indent4 L
              (storage_data (snd (handle_task_generation L client now stamp s))))"
    and "notification (snd (handle_task_generation L client now stamp s)) = Some ''New task generated!''"
  using assms
  by (simp_all add: handle_task_generation_def Let_def log_event_def save_project_data_def
      save_json_def storage_data_def)

lemma generation_rerun:
  assumes "fst (handle_task_generation L client now stamp s) = Rerun"
  shows "\<exists>d p. tasks (snd (handle_task_generation L client now stamp s)) =
           tasks s @ [JObj [(''id'', JInt (int (length (tasks s)) + 1)), (''description'', d),
                            (''prompt'', p), (''status'', JStr ''pending''),
                            (''timestamp'', JFloat now)]]"
  using assms
  by (auto simp: handle_task_generation_def Let_def log_event_def save_project_data_def
      split: sum.splits if_splits)

lemma all_generated_ids:
  "all_generated L cs s \<Longrightarrow>
   \<exists>news. tasks (run L cs s) = tasks s @ news
     \<and> map (\<lambda>t. py_getitem t ''id'') news
         = map (\<lambda>k. Inr (JInt (int (length (tasks s) + k) + 1))) [0..<length cs]"
proof (induction cs arbitrary: s)
  case Nil
  then show ?case by simp
next
  case (Cons c cs)
  then obtain client now stamp where c: "c = Generate client now stamp"
    by (cases c) auto
  let ?s1 = "snd (handle_task_generation L client now stamp s)"
  from Cons.prems c have ok: "fst (handle_task_generation L client now stamp s) = Rerun"
    and rest: "all_generated L cs ?s1"
    by auto
  from generation_rerun [OF ok] obtain d p where
    t1: "tasks ?s1 = tasks s @ [JObj [(''id'', JInt (int (length (tasks s)) + 1)), (''description'', d),
                            (''prompt'', p), (''status'', JStr ''pending''),
                            (''timestamp'', JFloat now)]]"
    by blast
  from Cons.IH [OF rest] obtain news where
    n1: "tasks (run L cs ?s1) = tasks ?s1 @ news"
    and n2: "map (\<lambda>t. py_getitem t ''id'') news
         = map (\<lambda>k. Inr (JInt (int (length (tasks ?s1) + k) + 1))) [0..<length cs]"
    by blast
  let ?new = "JObj [(''id'', JInt (int (length (tasks s)) + 1)), (''description'', d),
                            (''prompt'', p), (''status'', JStr ''pending''),
                            (''timestamp'', JFloat now)]"
  have len: "length (tasks ?s1) = Suc (length (tasks s))"
    by (simp add: t1)
  have upt: "[0..<Suc (length cs)] = 0 # map Suc [0..<length cs]"
    by (simp add: upt_conv_Cons map_Suc_upt del: upt_Suc)
  have "tasks (run L (c # cs) s) = tasks s @ (?new # news)"
    using n1 t1 c by simp
  moreover have "map (\<lambda>t. py_getitem t ''id'') (?new # news)
         = map (\<lambda>k. Inr (JInt (int (length (tasks s) + k) + 1))) [0..<length (c # cs)]"
    using n2 len by (simp add: upt comp_def del: upt_Suc)
  ultimately show ?case by blast
qed

text \<open>
  What the generation reducer does when the response, with the white space stripped
  and the fence marks removed as line 203 does, parses to an object that has the keys
  \<open>task_description\<close> and \<open>coding_prompt\<close>. It appends one task: its id is the number of
  tasks before plus one, its status is \<open>pending\<close>, its description and prompt are the
  values of the two keys of that object and its timestamp is the reading of the clock;
  the tasks before are unchanged. It appends the log entry \<open>Task Generated\<close>, writes the
  new store to the storage file, sets the notification and asks for the rerun. Over a
  sequence of such calls from a state with \<open>n\<close> tasks the earlier tasks stay and the ids
  of the appended tasks are \<open>n + 1\<close>, \<open>n + 2\<close>, and so on, so they increase strictly.
\<close>

lemma generation_appends:
  "(json_loads L (json_response_str (client (generation_prompt L (tasks s)))) = Inr task_data
      \<and> py_getitem task_data ''task_description'' = Inr d
      \<and> py_getitem task_data ''coding_prompt'' = Inr p \<longrightarrow>
    fst (handle_task_generation L client now stamp s) = Rerun
    \<and> tasks (snd (handle_task_generation L client now stamp s)) =
         tasks s @ [JObj [(''id'', JInt (int (length (tasks s)) + 1)), (''description'', d),
                          (''prompt'', p), (''status'', JStr ''pending''),
                          (''timestamp'', JFloat now)]]
    \<and> logs (snd (handle_task_generation L client now stamp s)) =
         logs s @ [JObj [(''timestamp'', JStr stamp), (''event'', JStr ''Task Generated''),
                         (''details'', JObj [(''task_id'', JInt (int (length (tasks s)) + 1)),
                                             (''description'', d)])]]
    \<and> files (snd (handle_task_generation L client now stamp s)) =
         (files s)(storage_path \<mapsto> json_dump_indent4 L
            (storage_data (snd (handle_task_generation L client now stamp s))))
    \<and> notification (snd (handle_task_generation L client now stamp s)) = Some ''New task generated!'')
   \<and> (all_generated L cs s0 \<longrightarrow>
        take (length (tasks s0)) (tasks (run L cs s0)) = tasks s0
        \<and> map (\<lambda>t. py_getitem t ''id'') (drop (length (tasks s0)) (tasks (run L cs s0)))
            = map (\<lambda>k. Inr (JInt (int (length (tasks s0) + k) + 1))) [0..<length cs]
        \<and> sorted_wrt (<) (map (\<lambda>k. int (length (tasks s0) + k) + 1) [0..<length cs]))"
proof -
  have seq: "take (length (tasks s0)) (tasks (run L cs s0)) = tasks s0
        \<and> map (\<lambda>t. py_getitem t ''id'') (drop (length (tasks s0)) (tasks (run L cs s0)))
            = map (\<lambda>k. Inr (JInt (int (length (tasks s0) + k) + 1))) [0..<length cs]"
    if "all_generated L cs s0"
    using all_generated_ids [OF that] by auto
  have "sorted_wrt (\<lambda>x y. int (length (tasks s0) + x) + 1 < int (length (tasks s0) + y) + 1)
          [0..<length cs]"
    by (rule sorted_wrt_mono_rel [OF _ sorted_wrt_upt]) simp
  then have inc: "sorted_wrt (<) (map (\<lambda>k. int (length (tasks s0) + k) + 1) [0..<length cs])"
    by (simp only: sorted_wrt_map)
  show ?thesis
    using seq inc generation_success [of L client s task_data d p now stamp]
    by blast
qed

lemma generation_appends_example:
  "json_loads example_lib (json_response_str mock_task_text) = Inr mock_task
   \<and> tasks (snd (handle_task_generation example_lib (\<lambda>q. mock_task_text) 5 [] one_pending_state)) =
       [login_task,
        JObj [(''id'', JInt 2),
              (''description'', JStr ''Mock task: Implement the user login page.''),
              (''prompt'', JStr
                 ''Create a new Streamlit page for user login with username and password fields.''),
              (''status'', JStr ''pending''), (''timestamp'', JFloat 5)]]
   \<and> all_generated example_lib [Generate (\<lambda>q. mock_task_text) 5 [], Generate (\<lambda>q. mock_task_text) 6 []]
        empty_state
   \<and> map (\<lambda>t. py_getitem t ''id'')
        (tasks (run example_lib [Generate (\<lambda>q. mock_task_text) 5 [], Generate (\<lambda>q. mock_task_text) 6 []]
           empty_state))
       = [Inr (JInt 1), Inr (JInt 2)]"
proof -
  have r: "json_response_str mock_task_text = mock_task_text"
    by (simp add: json_response_str_def mock_task_text_def strip_def is_space_def replace_def)
  have l: "json_loads example_lib (json_response_str mock_task_text) = Inr mock_task"
    by (simp add: r example_lib_def)
  have g1: "py_getitem mock_task ''task_description'' = Inr (JStr ''Mock task: Implement the user login page.'')"
    by (simp add: mock_task_def)
  have g2: "py_getitem mock_task ''coding_prompt'' = Inr (JStr
      ''Create a new Streamlit page for user login with username and password fields.'')"
    by (simp add: mock_task_def)
  have ok: "fst (handle_task_generation example_lib (\<lambda>q. mock_task_text) now stamp s) = Rerun" for now stamp s
    using generation_appends [of example_lib "\<lambda>q. mock_task_text" s mock_task _ _ now stamp "[]" empty_state] l g1 g2
    by blast
  have ag: "all_generated example_lib
      [Generate (\<lambda>q. mock_task_text) 5 [], Generate (\<lambda>q. mock_task_text) 6 []] empty_state"
    by (simp add: ok)
  have upt2: "[0..<2] = [0, Suc 0]"
    by (simp add: upt_conv_Cons)
  show ?thesis
    using l ag
      generation_appends [of example_lib "\<lambda>q. mock_task_text" one_pending_state mock_task
        "JStr ''Mock task: Implement the user login page.''"
        "JStr ''Create a new Streamlit page for user login with username and password fields.''"
        5 "[]" "[Generate (\<lambda>q. mock_task_text) 5 [], Generate (\<lambda>q. mock_task_text) 6 []]" empty_state]
      g1 g2
    by (simp add: one_pending_state_def empty_state_def upt2 del: run.simps all_generated.simps)
qed

text \<open>
  Claim C3 does not hold of the code for a response that carries a code fence inside a
  value. Line 203 is to take the fence around the JSON part away, and it removes the
  three backticks wherever they stand. The response \<open>fenced_task_text\<close> parses as it is,
  and its \<open>coding_prompt\<close> is \<open>x```y\<close>; the reducer parses the text without the backticks
  and the prompt of the task it appends is \<open>xy\<close>.
\<close>

theorem C3_fence_in_value:
  "json_loads example_lib fenced_task_text = Inr fenced_task
   \<and> py_getitem fenced_task ''task_description'' = Inr (JStr ''a'')
   \<and> py_getitem fenced_task ''coding_prompt'' = Inr (JStr ''x```y'')
   \<and> json_response_str fenced_task_text = cleaned_task_text
   \<and> tasks (snd (handle_task_generation example_lib (\<lambda>q. fenced_task_text) 5 [] empty_state))
       = [JObj [(''id'', JInt 1), (''description'', JStr ''a''), (''prompt'', JStr ''xy''),
                (''status'', JStr ''pending''), (''timestamp'', JFloat 5)]]"
proof -
  have n: "fenced_task_text \<noteq> mock_task_text \<and> fenced_task_text \<noteq> mock_verified_text
           \<and> fenced_task_text \<noteq> ''{}'' \<and> fenced_task_text \<noteq> empty_storage_text
           \<and> fenced_task_text \<noteq> login_storage_text
           \<and> cleaned_task_text \<noteq> mock_task_text \<and> cleaned_task_text \<noteq> mock_verified_text
           \<and> cleaned_task_text \<noteq> ''{}'' \<and> cleaned_task_text \<noteq> empty_storage_text
           \<and> cleaned_task_text \<noteq> login_storage_text \<and> cleaned_task_text \<noteq> fenced_task_text"
    by (simp add: fenced_task_text_def cleaned_task_text_def mock_task_text_def
        mock_verified_text_def empty_storage_text_def login_storage_text_def)
  have a: "json_loads example_lib fenced_task_text = Inr fenced_task"
    by (simp add: example_lib_def n)
  have b: "py_getitem fenced_task ''task_description'' = Inr (JStr ''a'')
           \<and> py_getitem fenced_task ''coding_prompt'' = Inr (JStr ''x```y'')"
    by (simp add: fenced_task_def)
  have c: "json_response_str fenced_task_text = cleaned_task_text"
    by (simp add: json_response_str_def fenced_task_text_def cleaned_task_text_def strip_def
        is_space_def replace_def)
  have l: "json_loads example_lib (json_response_str fenced_task_text) = Inr cleaned_task"
    by (simp add: c example_lib_def n)
  have e: "tasks empty_state = []"
    by (simp add: empty_state_def)
  have d: "tasks (snd (handle_task_generation example_lib (\<lambda>q. fenced_task_text) 5 [] empty_state))
       = [JObj [(''id'', JInt 1), (''description'', JStr ''a''), (''prompt'', JStr ''xy''),
                (''status'', JStr ''pending''), (''timestamp'', JFloat 5)]]"
    using generation_success(2) [where L = example_lib and client = "\<lambda>q. fenced_task_text"
        and s = empty_state and task_data = cleaned_task and d = "JStr ''a''" and p = "JStr ''xy''"
        and now = 5 and stamp = "[]"] l
    by (simp add: cleaned_task_def e)
  from a b c d show ?thesis by simp
qed

section \<open>Responses that do not have the expected shape\<close>














section \<open>At most one pending task\<close>

















section \<open>An accepted verification without feedback\<close>

text \<open>
  The case the statement of claim C1 above leaves open. When the response parses to an
  object whose \<open>verified\<close> is true and whose \<open>feedback\<close> is missing, the pending task is
  already verified, logged and written to the storage file when the \<open>KeyError\<close> for
  \<open>feedback\<close> is raised at line 269; the handler catches it and reports a parse failure.
\<close>

lemma verification_accepted_without_feedback:
  assumes "find_pending (tasks s) = Inr (Some i)"
    and "tasks s ! i = JObj kvs"
    and "map_of kvs ''description'' = Some d"
    and "map_of kvs ''prompt'' = Some p"
    and "map_of kvs ''id'' = Some task_id"
    and "json_loads L (json_response_str (client (verification_prompt L d p (user_summary_of u))))
           = Inr (JObj vkvs)"
    and "map_of vkvs ''verified'' = Some v" and "truthy v"
    and "map_of vkvs ''feedback'' = None"
  shows "fst (handle_task_verification L client stamp u s) = Returned"
    and "tasks (snd (handle_task_verification L client stamp u s))
           = (tasks s)[i := JObj (AList.update ''status'' (JStr ''verified'') kvs)]"
    and "files (snd (handle_task_verification L client stamp u s)) storage_path
           = Some (json_dump_indent4 L
               (storage_data (snd (handle_task_verification L client stamp u s))))"
    and "chat_history (snd (handle_task_verification L client stamp u s))
           = chat_history s @
               [(''assistant'',
                 verification_error_message (KeyError ''feedback'')
                   (client (verification_prompt L d p (user_summary_of u))))]"
  using assms
  by (simp_all add: handle_task_verification_def verification_try_def verification_accept_def
      Let_def log_event_def save_project_data_def save_json_def storage_data_def update_conv')

end
